theory Spec2Isabelle
  imports Complex_Main
begin

section \<open>JavaScript numbers\<close>

text \<open>
  The simulation of \<^verbatim>\<open>script.js\<close> computes with JavaScript numbers. A number is
  modelled by the real value it denotes, or by one of the three special values of the
  language; rounding (of doubles, and of the 32-bit floats a \<^verbatim>\<open>Float32Array\<close> stores),
  overflow and the sign of zero are outside the model: arithmetic on finite values is exact.
  The special values follow the language: \<^verbatim>\<open>0 / 0\<close> is \<^verbatim>\<open>NaN\<close>, a nonzero value
  divided by zero is infinite, \<^verbatim>\<open>NaN\<close> is absorbing and every comparison with it is false.
\<close>

datatype jsnum = Fin real | PosInf | NegInf | NaN

fun jneg :: "jsnum \<Rightarrow> jsnum" where
  "jneg (Fin a) = Fin (- a)"
| "jneg PosInf = NegInf"
| "jneg NegInf = PosInf"
| "jneg NaN = NaN"

fun jadd :: "jsnum \<Rightarrow> jsnum \<Rightarrow> jsnum" where
  "jadd (Fin a) (Fin b) = Fin (a + b)"
| "jadd NaN b = NaN"
| "jadd a NaN = NaN"
| "jadd PosInf NegInf = NaN"
| "jadd NegInf PosInf = NaN"
| "jadd PosInf b = PosInf"
| "jadd a PosInf = PosInf"
| "jadd NegInf b = NegInf"
| "jadd a NegInf = NegInf"

definition jsub :: "jsnum \<Rightarrow> jsnum \<Rightarrow> jsnum" where
  "jsub a b = jadd a (jneg b)"

text \<open>The sign of an infinite product or quotient: \<open>signed pos\<close> is the infinity of that sign.\<close>

definition signed :: "bool \<Rightarrow> jsnum" where
  "signed pos = (if pos then PosInf else NegInf)"

fun jmul :: "jsnum \<Rightarrow> jsnum \<Rightarrow> jsnum" where
  "jmul (Fin a) (Fin b) = Fin (a * b)"
| "jmul NaN b = NaN"
| "jmul a NaN = NaN"
| "jmul PosInf (Fin b) = (if b = 0 then NaN else signed (0 < b))"
| "jmul NegInf (Fin b) = (if b = 0 then NaN else signed (b < 0))"
| "jmul (Fin a) PosInf = (if a = 0 then NaN else signed (0 < a))"
| "jmul (Fin a) NegInf = (if a = 0 then NaN else signed (a < 0))"
| "jmul PosInf PosInf = PosInf"
| "jmul PosInf NegInf = NegInf"
| "jmul NegInf PosInf = NegInf"
| "jmul NegInf NegInf = PosInf"

text \<open>
  Division. The one zero of the model is the positive zero: the only divisor of the program
  is the result of \<^verbatim>\<open>Math.sqrt\<close> on a sum of squares, which is never the negative zero.
\<close>

fun jdiv :: "jsnum \<Rightarrow> jsnum \<Rightarrow> jsnum" where
  "jdiv (Fin a) (Fin b) =
     (if b \<noteq> 0 then Fin (a / b) else if a = 0 then NaN else signed (0 < a))"
| "jdiv NaN b = NaN"
| "jdiv a NaN = NaN"
| "jdiv (Fin a) PosInf = Fin 0"
| "jdiv (Fin a) NegInf = Fin 0"
| "jdiv PosInf (Fin b) = signed (0 \<le> b)"
| "jdiv NegInf (Fin b) = signed (b < 0)"
| "jdiv PosInf PosInf = NaN"
| "jdiv PosInf NegInf = NaN"
| "jdiv NegInf PosInf = NaN"
| "jdiv NegInf NegInf = NaN"

fun jsqrt :: "jsnum \<Rightarrow> jsnum" where
  "jsqrt (Fin a) = (if a < 0 then NaN else Fin (sqrt a))"
| "jsqrt PosInf = PosInf"
| "jsqrt NegInf = NaN"
| "jsqrt NaN = NaN"

fun jsin :: "jsnum \<Rightarrow> jsnum" where
  "jsin (Fin a) = Fin (sin a)"
| "jsin a = NaN"

fun jcos :: "jsnum \<Rightarrow> jsnum" where
  "jcos (Fin a) = Fin (cos a)"
| "jcos a = NaN"

fun jacos :: "jsnum \<Rightarrow> jsnum" where
  "jacos (Fin a) = (if - 1 \<le> a \<and> a \<le> 1 then Fin (arccos a) else NaN)"
| "jacos a = NaN"

text \<open>The comparison \<^verbatim>\<open>a > b\<close>.\<close>

fun jgt :: "jsnum \<Rightarrow> jsnum \<Rightarrow> bool" where
  "jgt (Fin a) (Fin b) = (b < a)"
| "jgt NaN b = False"
| "jgt a NaN = False"
| "jgt PosInf PosInf = False"
| "jgt PosInf b = True"
| "jgt a PosInf = False"
| "jgt NegInf b = False"
| "jgt a NegInf = True"

text \<open>The comparison \<^verbatim>\<open>a <= b\<close>.\<close>

fun jle :: "jsnum \<Rightarrow> jsnum \<Rightarrow> bool" where
  "jle (Fin a) (Fin b) = (a \<le> b)"
| "jle NaN b = False"
| "jle a NaN = False"
| "jle NegInf b = True"
| "jle a PosInf = True"
| "jle PosInf b = False"
| "jle a NegInf = False"

section \<open>The state of the simulation\<close>

text \<open>
  A velocity object \<^verbatim>\<open>{x, y, z}\<close> of the array \<^verbatim>\<open>explosionVelocities\<close>.
\<close>

datatype vec3 = Vec3 (vec_x: jsnum) (vec_y: jsnum) (vec_z: jsnum)

text \<open>
  A \<^verbatim>\<open>BufferGeometry\<close> with its three attributes; each attribute is the typed array
  it wraps. A \<^verbatim>\<open>Float32Array\<close> has a fixed length, is zero-filled when allocated,
  and ignores a write beyond its end (as \<open>xs[i := v]\<close> does).
\<close>

record geometry =
  position_attr :: "jsnum list"
  color_attr :: "jsnum list"
  size_attr :: "jsnum list"

text \<open>A \<^verbatim>\<open>Points\<close> object: its geometry and the \<^verbatim>\<open>y\<close> component of its rotation.\<close>

record points =
  points_geometry :: geometry
  rotation_y :: jsnum

text \<open>
  The global variables of the script. \<open>particleCount\<close>, \<open>expansionSpeed\<close> and
  \<open>explosionTime\<close> are the fields of \<^verbatim>\<open>explosionParams\<close>; \<open>galaxyParticleCount\<close>,
  \<open>galaxySpread\<close> and \<open>created\<close> are those of \<^verbatim>\<open>galaxyParams\<close>. The globals
  \<^verbatim>\<open>explosionGeometry\<close> and \<^verbatim>\<open>galaxyGeometry\<close> are only ever assigned together with
  \<^verbatim>\<open>explosionParticles\<close> and \<^verbatim>\<open>galaxyParticles\<close>, whose geometry they are, and are
  read off these; a variable that is still \<^verbatim>\<open>undefined\<close> is \<open>None\<close>. Every typed array
  is allocated afresh by the function that fills it and is referenced by one geometry only,
  so arrays are values here.

  Two collaborators of the script are part of the state: \<open>mathRandom\<close> is the sequence of
  values that the coming calls of \<^verbatim>\<open>Math.random()\<close> return, and \<open>colorSetHSL\<close>
  is the conversion \<^verbatim>\<open>THREE.Color.setHSL\<close> of the library, from hue, saturation and
  lightness to the red, green and blue components. The scene graph, the materials, the
  camera, its controls and the renderer are not modelled.
\<close>

record state =
  mathRandom :: "nat \<Rightarrow> real"
  colorSetHSL :: "real \<Rightarrow> real \<Rightarrow> real \<Rightarrow> jsnum \<times> jsnum \<times> jsnum"
  explosionParticles :: "points option"
  galaxyParticles :: "points option"
  explosionVelocities :: "vec3 list"
  particleCount :: nat
  expansionSpeed :: jsnum
  explosionTime :: jsnum
  galaxyParticleCount :: nat
  galaxySpread :: jsnum
  created :: bool

definition explosionGeometry :: "state \<Rightarrow> geometry option" where
  "explosionGeometry s = map_option points_geometry (explosionParticles s)"

definition galaxyGeometry :: "state \<Rightarrow> geometry option" where
  "galaxyGeometry s = map_option points_geometry (galaxyParticles s)"

text \<open>
  \<^verbatim>\<open>Math.random()\<close> returns the next value of the sequence and moves on.
\<close>

definition Math_random :: "state \<Rightarrow> real \<times> state" where
  "Math_random s = (mathRandom s 0, s\<lparr>mathRandom := (\<lambda>n. mathRandom s (Suc n))\<rparr>)"

definition Math_PI :: jsnum where
  "Math_PI = Fin pi"


section \<open>Creating the explosion particles\<close>

text \<open>
  One iteration of the loop of \<^verbatim>\<open>createExplosionParticles\<close>, for the index \<open>i\<close>, on
  the three local arrays (held in a geometry value) and the globals. The nine calls of
  \<^verbatim>\<open>Math.random()\<close> happen in the order of the source.
\<close>

definition explosionBody :: "nat \<Rightarrow> geometry \<times> state \<Rightarrow> geometry \<times> state" where
  "explosionBody i gs =
     (let (g, s0) = gs;
          (u1, s1) = Math_random s0;
          r = jmul (Fin u1) (Fin (1 / 10));
          (u2, s2) = Math_random s1;
          theta = jmul (jmul (Fin u2) Math_PI) (Fin 2);
          (u3, s3) = Math_random s2;
          phi = jacos (jsub (jmul (Fin u3) (Fin 2)) (Fin 1));
          x = jmul (jmul r (jsin phi)) (jcos theta);
          y = jmul (jmul r (jsin phi)) (jsin theta);
          z = jmul r (jcos phi);
          positions = (position_attr g)[i * 3 := x, i * 3 + 1 := y, i * 3 + 2 := z];
          (cr, cg, cb) = colorSetHSL s3 (1 / 10) 1 (8 / 10);
          colors = (color_attr g)[i * 3 := cr, i * 3 + 1 := cg, i * 3 + 2 := cb];
          sizes = (size_attr g)[i := Fin 2];
          (u4, s4) = Math_random s3;
          vx = jsub (Fin u4) (Fin (1 / 2));
          (u5, s5) = Math_random s4;
          vy = jsub (Fin u5) (Fin (1 / 2));
          (u6, s6) = Math_random s5;
          vz = jsub (Fin u6) (Fin (1 / 2));
          len = jsqrt (jadd (jadd (jmul vx vx) (jmul vy vy)) (jmul vz vz));
          (u7, s7) = Math_random s6;
          velx = jmul (jdiv vx len) (jadd (jmul (Fin u7) (Fin 5)) (Fin 2));
          (u8, s8) = Math_random s7;
          vely = jmul (jdiv vy len) (jadd (jmul (Fin u8) (Fin 5)) (Fin 2));
          (u9, s9) = Math_random s8;
          velz = jmul (jdiv vz len) (jadd (jmul (Fin u9) (Fin 5)) (Fin 2))
      in (\<lparr>position_attr = positions, color_attr = colors, size_attr = sizes\<rparr>,
          s9\<lparr>explosionVelocities := explosionVelocities s9 @ [Vec3 velx vely velz]\<rparr>))"

text \<open>
  The loop \<^verbatim>\<open>for (let i = 0; i < explosionParams.particleCount; i++)\<close>; the body
  does not assign the count, which is read once here, as \<open>n\<close>.
\<close>

function explosionLoop :: "nat \<Rightarrow> nat \<Rightarrow> geometry \<times> state \<Rightarrow> geometry \<times> state" where
  "explosionLoop i n gs = (if i < n then explosionLoop (Suc i) n (explosionBody i gs) else gs)"
  by pat_completeness auto
termination
  by (relation "measure (\<lambda>(i, n, gs). n - i)") auto

definition createExplosionParticles :: "state \<Rightarrow> state" where
  "createExplosionParticles s =
     (let n = particleCount s;
          g0 = \<lparr>position_attr = replicate (n * 3) (Fin 0),
                color_attr = replicate (n * 3) (Fin 0),
                size_attr = replicate n (Fin 0)\<rparr>;
          (g, s') = explosionLoop 0 n (g0, s)
      in s'\<lparr>explosionParticles := Some \<lparr>points_geometry = g, rotation_y = Fin 0\<rparr>\<rparr>)"

section \<open>Creating the galaxy particles\<close>

definition galaxyBody :: "nat \<Rightarrow> geometry \<times> state \<Rightarrow> geometry \<times> state" where
  "galaxyBody i gs =
     (let (g, s0) = gs;
          (u1, s1) = Math_random s0;
          r = jadd (jmul (Fin u1) (galaxySpread s1)) (Fin 50);
          (u2, s2) = Math_random s1;
          theta = jmul (jmul (Fin u2) Math_PI) (Fin 2);
          (u3, s3) = Math_random s2;
          phi = jacos (jsub (jmul (Fin u3) (Fin 2)) (Fin 1));
          x = jmul (jmul r (jsin phi)) (jcos theta);
          y = jmul (jmul r (jsin phi)) (jsin theta);
          z = jmul r (jcos phi);
          positions = (position_attr g)[i * 3 := x, i * 3 + 1 := y, i * 3 + 2 := z];
          (cr, cg, cb) = colorSetHSL s3 (6 / 10) (7 / 10) (7 / 10);
          colors = (color_attr g)[i * 3 := cr, i * 3 + 1 := cg, i * 3 + 2 := cb];
          sizes = (size_attr g)[i := Fin (5 / 2)]
      in (\<lparr>position_attr = positions, color_attr = colors, size_attr = sizes\<rparr>, s3))"

function galaxyLoop :: "nat \<Rightarrow> nat \<Rightarrow> geometry \<times> state \<Rightarrow> geometry \<times> state" where
  "galaxyLoop i n gs = (if i < n then galaxyLoop (Suc i) n (galaxyBody i gs) else gs)"
  by pat_completeness auto
termination
  by (relation "measure (\<lambda>(i, n, gs). n - i)") auto

definition createGalaxyParticles :: "state \<Rightarrow> state" where
  "createGalaxyParticles s =
     (let n = galaxyParticleCount s;
          g0 = \<lparr>position_attr = replicate (n * 3) (Fin 0),
                color_attr = replicate (n * 3) (Fin 0),
                size_attr = replicate n (Fin 0)\<rparr>;
          (g, s') = galaxyLoop 0 n (g0, s)
      in s'\<lparr>galaxyParticles := Some \<lparr>points_geometry = g, rotation_y = Fin 0\<rparr>\<rparr>)"

section \<open>The animation frame\<close>

text \<open>
  The only exception the simulation code can raise: reading a property of \<^verbatim>\<open>undefined\<close>.
\<close>

datatype error = TypeError

text \<open>
  The position loop of \<^verbatim>\<open>animate\<close>. An index beyond the end of the array
  \<^verbatim>\<open>explosionVelocities\<close> reads \<^verbatim>\<open>undefined\<close>, whose property \<^verbatim>\<open>x\<close> cannot be
  read: the loop stops there with the exception, and the writes made so far remain
  (the array is updated in place). \<open>t\<close> is \<^verbatim>\<open>explosionParams.explosionTime\<close>.
\<close>

function positionLoop ::
  "nat \<Rightarrow> nat \<Rightarrow> vec3 list \<Rightarrow> jsnum \<Rightarrow> jsnum list \<Rightarrow> error option \<times> jsnum list" where
  "positionLoop i n vs t positions =
     (if i < n then
        (if i < length vs then
           positionLoop (Suc i) n vs t
             (positions[i * 3 := jmul (vec_x (vs ! i)) t,
                        i * 3 + 1 := jmul (vec_y (vs ! i)) t,
                        i * 3 + 2 := jmul (vec_z (vs ! i)) t])
         else (Some TypeError, positions))
      else (None, positions))"
  by pat_completeness auto
termination
  by (relation "measure (\<lambda>(i, n, vs, t, positions). n - i)") auto

text \<open>
  What a frame did: it threw, or it ran to its end, and then the flag tells whether it
  called \<^verbatim>\<open>createGalaxyParticles\<close>.
\<close>

datatype outcome = Threw error | Completed bool

text \<open>
  One call of \<^verbatim>\<open>animate\<close>, in the four steps of the source; \<open>delta\<close> is the value
  that \<^verbatim>\<open>clock.getDelta()\<close> returns. First the simulation time is advanced.
\<close>

definition advanceClock :: "jsnum \<Rightarrow> state \<Rightarrow> state" where
  "advanceClock delta s =
     s\<lparr>explosionTime := jadd (explosionTime s) (jmul delta (expansionSpeed s))\<rparr>"

text \<open>
  Then the position array of the explosion geometry is rewritten in place, up to the
  index at which the loop ends or throws.
\<close>

definition updatePositions :: "state \<Rightarrow> error option \<times> state" where
  "updatePositions s =
     (case explosionParticles s of
        None \<Rightarrow> (Some TypeError, s)
      | Some p \<Rightarrow>
         (let g = points_geometry p;
              (r, positions) =
                 positionLoop 0 (particleCount s) (explosionVelocities s) (explosionTime s)
                   (position_attr g)
          in (r, s\<lparr>explosionParticles :=
                      Some (p\<lparr>points_geometry := g\<lparr>position_attr := positions\<rparr>\<rparr>)\<rparr>)))"

text \<open>
  Then the galaxy is added, unless its flag is set or the time is not past the threshold;
  the result tells whether \<^verbatim>\<open>createGalaxyParticles\<close> was called.
\<close>

definition addGalaxy :: "state \<Rightarrow> bool \<times> state" where
  "addGalaxy s =
     (if \<not> created s \<and> jgt (explosionTime s) (Fin 10)
      then (True, (createGalaxyParticles s)\<lparr>created := True\<rparr>)
      else (False, s))"

text \<open>Last, the galaxy, when there is one, is rotated a little.\<close>

definition rotateGalaxy :: "state \<Rightarrow> state" where
  "rotateGalaxy s =
     (case galaxyParticles s of
        None \<Rightarrow> s
      | Some q \<Rightarrow>
         s\<lparr>galaxyParticles := Some (q\<lparr>rotation_y := jadd (rotation_y q) (Fin (5 / 10000))\<rparr>)\<rparr>)"

text \<open>
  The assignments made before an exception remain in the globals, and the next frame is
  already requested when the exception is thrown: a frame that throws leaves the state
  it reached to the next one.
\<close>

definition animate :: "jsnum \<Rightarrow> state \<Rightarrow> outcome \<times> state" where
  "animate delta s =
     (case updatePositions (advanceClock delta s) of
        (Some e, s') \<Rightarrow> (Threw e, s')
      | (None, s') \<Rightarrow> (case addGalaxy s' of (b, s'') \<Rightarrow> (Completed b, rotateGalaxy s'')))"

section \<open>Start-up, the parameter panel, and runs\<close>

text \<open>
  The globals as the script declares them, then \<^verbatim>\<open>init()\<close>, which creates the
  explosion particles. The two parameters are the collaborators described above.
\<close>

definition globals ::
  "(nat \<Rightarrow> real) \<Rightarrow> (real \<Rightarrow> real \<Rightarrow> real \<Rightarrow> jsnum \<times> jsnum \<times> jsnum) \<Rightarrow> state" where
  "globals rnd hsl =
     \<lparr>mathRandom = rnd, colorSetHSL = hsl,
      explosionParticles = None, galaxyParticles = None,
      explosionVelocities = [],
      particleCount = 10000, expansionSpeed = Fin 1, explosionTime = Fin 0,
      galaxyParticleCount = 5000, galaxySpread = Fin 500, created = False\<rparr>"

definition init ::
  "(nat \<Rightarrow> real) \<Rightarrow> (real \<Rightarrow> real \<Rightarrow> real \<Rightarrow> jsnum \<times> jsnum \<times> jsnum) \<Rightarrow> state" where
  "init rnd hsl = createExplosionParticles (globals rnd hsl)"

text \<open>
  The callback that \<^verbatim>\<open>setupGUI\<close> registers with \<^verbatim>\<open>onFinishChange\<close> on the particle
  count of the explosion.
\<close>

definition onFinishChange :: "nat \<Rightarrow> state \<Rightarrow> state" where
  "onFinishChange v s =
     createExplosionParticles (s\<lparr>explosionVelocities := [], particleCount := v\<rparr>)"

text \<open>
  What happens between start-up and the end of a run: a frame, a write of the parameter
  panel to one of the four fields it controls, or the callback above. The panel writes a
  field when its control moves, and calls the callback when the change is finished.
\<close>

datatype event =
    Frame jsnum
  | SetExpansionSpeed jsnum
  | SetParticleCount nat
  | FinishParticleCount nat
  | SetGalaxySpread jsnum
  | SetGalaxyParticleCount nat

fun step :: "event \<Rightarrow> state \<Rightarrow> outcome option \<times> state" where
  "step (Frame delta) s = (case animate delta s of (r, s') \<Rightarrow> (Some r, s'))"
| "step (SetExpansionSpeed v) s = (None, s\<lparr>expansionSpeed := v\<rparr>)"
| "step (SetParticleCount n) s = (None, s\<lparr>particleCount := n\<rparr>)"
| "step (FinishParticleCount n) s = (None, onFinishChange n s)"
| "step (SetGalaxySpread v) s = (None, s\<lparr>galaxySpread := v\<rparr>)"
| "step (SetGalaxyParticleCount n) s = (None, s\<lparr>galaxyParticleCount := n\<rparr>)"

text \<open>A run: the state after the events, and what each event's frame did.\<close>

fun run :: "event list \<Rightarrow> state \<Rightarrow> state" where
  "run [] s = s"
| "run (e # es) s = run es (snd (step e s))"

fun outcomes :: "event list \<Rightarrow> state \<Rightarrow> outcome option list" where
  "outcomes [] s = []"
| "outcomes (e # es) s = fst (step e s) # outcomes es (snd (step e s))"

section \<open>Notions used to state the properties\<close>



definition magnitude :: "vec3 \<Rightarrow> jsnum" where
  "magnitude v =
     jsqrt (jadd (jadd (jmul (vec_x v) (vec_x v)) (jmul (vec_y v) (vec_y v)))
                 (jmul (vec_z v) (vec_z v)))"

text \<open>The position array of the explosion (empty while there is no explosion).\<close>

definition explosionPositions :: "state \<Rightarrow> jsnum list" where
  "explosionPositions s =
     (case explosionGeometry s of None \<Rightarrow> [] | Some g \<Rightarrow> position_attr g)"

text \<open>
  The explosion exists, and its velocity array and position array have the sizes that the
  current particle count asks for.
\<close>

definition wellSized :: "state \<Rightarrow> bool" where
  "wellSized s =
     (explosionParticles s \<noteq> None \<and>
      length (explosionVelocities s) = particleCount s \<and>
      length (explosionPositions s) = particleCount s * 3)"

text \<open>Every value that \<^verbatim>\<open>Math.random()\<close> will return lies in \<open>[0, 1)\<close>.\<close>

definition randomOk :: "(nat \<Rightarrow> real) \<Rightarrow> bool" where
  "randomOk rnd = (\<forall>n. 0 \<le> rnd n \<and> rnd n < 1)"

text \<open>Three consecutive array cells written at once, as each loop body does.\<close>

definition write3 :: "'a list \<Rightarrow> nat \<Rightarrow> 'a \<Rightarrow> 'a \<Rightarrow> 'a \<Rightarrow> 'a list" where
  "write3 xs i a b c = xs[i * 3 := a, i * 3 + 1 := b, i * 3 + 2 := c]"


text \<open>
  For a run: whether an event is a frame that reaches its test of the time with the time
  above the threshold of ten; the events of a run for which that holds; and the events of
  a run whose frame called \<^verbatim>\<open>createGalaxyParticles\<close>.
\<close>

definition exceeds :: "event \<Rightarrow> state \<Rightarrow> bool" where
  "exceeds e s =
     (case fst (step e s) of
        Some (Completed b) \<Rightarrow> jgt (explosionTime (snd (step e s))) (Fin 10)
      | _ \<Rightarrow> False)"

fun exceedTrace :: "event list \<Rightarrow> state \<Rightarrow> bool list" where
  "exceedTrace [] s = []"
| "exceedTrace (e # es) s = exceeds e s # exceedTrace es (snd (step e s))"

definition createCalls :: "event list \<Rightarrow> state \<Rightarrow> bool list" where
  "createCalls es s = map (\<lambda>r. r = Some (Completed True)) (outcomes es s)"

text \<open>The first \<open>True\<close> of a list kept, every later one cleared.\<close>

fun onlyFirst :: "bool list \<Rightarrow> bool list" where
  "onlyFirst [] = []"
| "onlyFirst (b # bs) = (if b then True # replicate (length bs) False else False # onlyFirst bs)"

text \<open>The Euclidean length of a vector lies between two finite bounds.\<close>

definition distanceBetween :: "real \<Rightarrow> real \<Rightarrow> vec3 \<Rightarrow> bool" where
  "distanceBetween lo hi v = (jle (Fin lo) (magnitude v) \<and> jle (magnitude v) (Fin hi))"

text \<open>
  The velocity of one explosion particle as the loop body of
  \<^verbatim>\<open>createExplosionParticles\<close> computes it, named piece by piece: the raw direction
  \<^verbatim>\<open>(vx, vy, vz)\<close> from three draws, its division by its length \<^verbatim>\<open>len\<close>, the factor
  \<^verbatim>\<open>Math.random() * 5 + 2\<close>, and the velocity from the draws of one iteration, of which
  the fourth to the ninth are used. That the body pushes this velocity is the lemma
  \<open>explosionBody_velocity\<close> below.
\<close>

definition rawDirection :: "real \<Rightarrow> real \<Rightarrow> real \<Rightarrow> vec3" where
  "rawDirection u4 u5 u6 =
     Vec3 (jsub (Fin u4) (Fin (1 / 2))) (jsub (Fin u5) (Fin (1 / 2))) (jsub (Fin u6) (Fin (1 / 2)))"

definition normalized :: "vec3 \<Rightarrow> vec3" where
  "normalized v =
     Vec3 (jdiv (vec_x v) (magnitude v)) (jdiv (vec_y v) (magnitude v))
          (jdiv (vec_z v) (magnitude v))"

definition speedFactor :: "real \<Rightarrow> jsnum" where
  "speedFactor u = jadd (jmul (Fin u) (Fin 5)) (Fin 2)"

definition velocityFrom :: "(nat \<Rightarrow> real) \<Rightarrow> vec3" where
  "velocityFrom rnd =
     (let d = normalized (rawDirection (rnd 3) (rnd 4) (rnd 5))
      in Vec3 (jmul (vec_x d) (speedFactor (rnd 6))) (jmul (vec_y d) (speedFactor (rnd 7)))
              (jmul (vec_z d) (speedFactor (rnd 8))))"

section \<open>States for the examples\<close>

text \<open>
  One explosion particle of velocity \<open>(3, 0, 4)\<close> at the origin, at time \<open>0\<close> and
  with the parameters of the script, before the galaxy exists. The random source returns
  \<open>1/4\<close> throughout and every colour is white.
\<close>

definition exampleState :: state where
  "exampleState =
     \<lparr>mathRandom = (\<lambda>n. 1 / 4),
      colorSetHSL = (\<lambda>h sat l. (Fin 1, Fin 1, Fin 1)),
      explosionParticles =
        Some \<lparr>points_geometry =
                \<lparr>position_attr = [Fin 0, Fin 0, Fin 0],
                 color_attr = [Fin 1, Fin 1, Fin 1],
                 size_attr = [Fin 2]\<rparr>,
              rotation_y = Fin 0\<rparr>,
      galaxyParticles = None,
      explosionVelocities = [Vec3 (Fin 3) (Fin 0) (Fin 4)],
      particleCount = 1, expansionSpeed = Fin 1, explosionTime = Fin 0,
      galaxyParticleCount = 2, galaxySpread = Fin 500, created = False\<rparr>"

text \<open>The same state with the expansion speed set to \<open>2\<close>.\<close>

definition thresholdState :: state where
  "thresholdState = exampleState\<lparr>expansionSpeed := Fin 2\<rparr>"

text \<open>
  The example state without its explosion: no particle object, no velocity.
\<close>

definition blankState :: state where
  "blankState = exampleState\<lparr>explosionParticles := None, explosionVelocities := []\<rparr>"

text \<open>
  The state after start-up with the random source and the colours of the example, and
  the same after the parameter panel has written a particle count of 11000 without the
  callback that regenerates the explosion having run.
\<close>

definition startState :: state where
  "startState = init (\<lambda>n. 1 / 4) (\<lambda>h sat l. (Fin 1, Fin 1, Fin 1))"

definition staleState :: state where
  "staleState = snd (step (SetParticleCount 11000) startState)"

text \<open>
  A random source whose fourth, fifth and sixth values, the draws for the raw direction
  of the first particle, are \<open>1/2\<close>, and the state after start-up with it.
\<close>

definition halfDraws :: "nat \<Rightarrow> real" where
  "halfDraws n = (if 3 \<le> n \<and> n \<le> 5 then 1 / 2 else 1 / 4)"

definition halfStart :: state where
  "halfStart = init halfDraws (\<lambda>h sat l. (Fin 1, Fin 1, Fin 1))"

section \<open>The position loop\<close>

declare positionLoop.simps [simp del]
declare explosionLoop.simps [simp del]
declare galaxyLoop.simps [simp del]

lemma length_write3: "length (write3 xs i a b c) = length xs"
  by (simp add: write3_def)



lemma positionLoop_unfold:
  "positionLoop i n vs t ps =
     (if i < n then
        (if i < length vs then
           positionLoop (Suc i) n vs t
             (write3 ps i (jmul (vec_x (vs ! i)) t) (jmul (vec_y (vs ! i)) t) (jmul (vec_z (vs ! i)) t))
         else (Some TypeError, ps))
      else (None, ps))"
  by (subst positionLoop.simps) (simp add: write3_def)

lemma positionLoop_length:
  "length (snd (positionLoop i n vs t ps)) = length ps"
proof (induction i n vs t ps rule: positionLoop.induct)
  case (1 i n vs t ps)
  then show ?case
    by (subst positionLoop_unfold) (simp add: length_write3 write3_def)
qed

lemma positionLoop_completes:
  "n \<le> length vs \<Longrightarrow> fst (positionLoop i n vs t ps) = None"
proof (induction i n vs t ps rule: positionLoop.induct)
  case (1 i n vs t ps)
  then show ?case
    by (subst positionLoop.simps) simp
qed

lemma positionLoop_throws:
  "length vs < n \<Longrightarrow> i \<le> length vs \<Longrightarrow> fst (positionLoop i n vs t ps) = Some TypeError"
proof (induction i n vs t ps rule: positionLoop.induct)
  case (1 i n vs t ps)
  then show ?case
    by (subst positionLoop.simps) simp
qed




section \<open>Creating the galaxy leaves the explosion alone\<close>

lemma galaxyBody_state:
  "snd (galaxyBody i (g, s)) = s\<lparr>mathRandom := (\<lambda>k. mathRandom s (k + 3))\<rparr>"
  by (simp add: galaxyBody_def Math_random_def Let_def split_def numeral_3_eq_3)

lemma galaxyLoop_state:
  "\<exists>r. snd (galaxyLoop i n gs) = (snd gs)\<lparr>mathRandom := r\<rparr>"
proof (induction i n gs rule: galaxyLoop.induct)
  case (1 i n gs)
  show ?case
  proof (cases "i < n")
    case True
    obtain g s where gs: "gs = (g, s)"
      by (cases gs)
    from 1 [OF True] obtain r where
      "snd (galaxyLoop (Suc i) n (galaxyBody i gs)) = (snd (galaxyBody i gs))\<lparr>mathRandom := r\<rparr>"
      by blast
    then have "snd (galaxyLoop i n gs) = (snd gs)\<lparr>mathRandom := r\<rparr>"
      using True gs by (subst galaxyLoop.simps) (simp add: galaxyBody_state)
    then show ?thesis
      by blast
  next
    case False
    have "snd (galaxyLoop i n gs) = (snd gs)\<lparr>mathRandom := mathRandom (snd gs)\<rparr>"
      using False by (subst galaxyLoop.simps) simp
    then show ?thesis
      by (rule exI [of _ "mathRandom (snd gs)"])
  qed
qed

lemma createGalaxyParticles_state:
  "\<exists>r q. createGalaxyParticles s = s\<lparr>mathRandom := r, galaxyParticles := Some q\<rparr>"
proof -
  let ?g0 = "\<lparr>position_attr = replicate (galaxyParticleCount s * 3) (Fin 0),
              color_attr = replicate (galaxyParticleCount s * 3) (Fin 0),
              size_attr = replicate (galaxyParticleCount s) (Fin 0)\<rparr>"
  obtain r where "snd (galaxyLoop 0 (galaxyParticleCount s) (?g0, s)) = s\<lparr>mathRandom := r\<rparr>"
    using galaxyLoop_state [of 0 "galaxyParticleCount s" "(?g0, s)"] by auto
  then show ?thesis
    by (simp add: createGalaxyParticles_def Let_def split_def) blast
qed

lemma addGalaxy_state:
  "\<exists>r q. snd (addGalaxy s) = s\<lparr>mathRandom := r, galaxyParticles := q, created := created s \<or> fst (addGalaxy s)\<rparr>"
proof (cases "\<not> created s \<and> jgt (explosionTime s) (Fin 10)")
  case True
  obtain r q where "createGalaxyParticles s = s\<lparr>mathRandom := r, galaxyParticles := Some q\<rparr>"
    using createGalaxyParticles_state by blast
  with True have "snd (addGalaxy s) = s\<lparr>mathRandom := r, galaxyParticles := Some q, created := created s \<or> fst (addGalaxy s)\<rparr>"
    by (simp add: addGalaxy_def)
  then show ?thesis
    by blast
next
  case False
  then have "snd (addGalaxy s) = s\<lparr>mathRandom := mathRandom s, galaxyParticles := galaxyParticles s, created := created s \<or> fst (addGalaxy s)\<rparr>"
    by (auto simp: addGalaxy_def)
  then show ?thesis
    by blast
qed

lemma addGalaxy_explosion:
  "explosionParticles (snd (addGalaxy s)) = explosionParticles s"
  "explosionVelocities (snd (addGalaxy s)) = explosionVelocities s"
  "particleCount (snd (addGalaxy s)) = particleCount s"
  "explosionTime (snd (addGalaxy s)) = explosionTime s"
  "expansionSpeed (snd (addGalaxy s)) = expansionSpeed s"
  "created (snd (addGalaxy s)) = (created s \<or> fst (addGalaxy s))"
proof -
  obtain r q where
    "snd (addGalaxy s) = s\<lparr>mathRandom := r, galaxyParticles := q, created := created s \<or> fst (addGalaxy s)\<rparr>"
    using addGalaxy_state by blast
  then show
    "explosionParticles (snd (addGalaxy s)) = explosionParticles s"
    "explosionVelocities (snd (addGalaxy s)) = explosionVelocities s"
    "particleCount (snd (addGalaxy s)) = particleCount s"
    "explosionTime (snd (addGalaxy s)) = explosionTime s"
    "expansionSpeed (snd (addGalaxy s)) = expansionSpeed s"
    "created (snd (addGalaxy s)) = (created s \<or> fst (addGalaxy s))"
    by simp_all
qed

lemma rotateGalaxy_explosion:
  "explosionParticles (rotateGalaxy s) = explosionParticles s"
  "explosionVelocities (rotateGalaxy s) = explosionVelocities s"
  "particleCount (rotateGalaxy s) = particleCount s"
  "explosionTime (rotateGalaxy s) = explosionTime s"
  "expansionSpeed (rotateGalaxy s) = expansionSpeed s"
  "created (rotateGalaxy s) = created s"
  by (simp_all add: rotateGalaxy_def split: option.splits)

lemma explosionPositions_Some:
  "explosionParticles s = Some p \<Longrightarrow> explosionPositions s = position_attr (points_geometry p)"
  by (simp add: explosionPositions_def explosionGeometry_def)


lemma wellSized_cong:
  "explosionParticles s = explosionParticles s' \<Longrightarrow>
   explosionVelocities s = explosionVelocities s' \<Longrightarrow>
   particleCount s = particleCount s' \<Longrightarrow> wellSized s = wellSized s'"
  by (simp add: wellSized_def explosionPositions_def explosionGeometry_def)

section \<open>The position update of a frame\<close>

lemma updatePositions_fields:
  "explosionVelocities (snd (updatePositions s)) = explosionVelocities s"
  "particleCount (snd (updatePositions s)) = particleCount s"
  "explosionTime (snd (updatePositions s)) = explosionTime s"
  "expansionSpeed (snd (updatePositions s)) = expansionSpeed s"
  "created (snd (updatePositions s)) = created s"
  "galaxyParticles (snd (updatePositions s)) = galaxyParticles s"
  by (simp_all add: updatePositions_def Let_def split_def split: option.splits)

lemma updatePositions_positions:
  "explosionPositions (snd (updatePositions s)) =
     snd (positionLoop 0 (particleCount s) (explosionVelocities s) (explosionTime s)
            (explosionPositions s))"
proof (cases "explosionParticles s")
  case None
  have "snd (positionLoop 0 (particleCount s) (explosionVelocities s) (explosionTime s) []) = []"
    using positionLoop_length [of 0 "particleCount s" "explosionVelocities s" "explosionTime s" "[]"]
    by simp
  with None show ?thesis
    by (simp add: updatePositions_def explosionPositions_def explosionGeometry_def)
next
  case (Some p)
  then show ?thesis
    by (simp add: updatePositions_def explosionPositions_def explosionGeometry_def Let_def split_def)
qed

lemma updatePositions_wellSized:
  assumes "wellSized s"
  shows "fst (updatePositions s) = None" and "wellSized (snd (updatePositions s))"
proof -
  from assms obtain p where p: "explosionParticles s = Some p"
    and lv: "length (explosionVelocities s) = particleCount s"
    and lp: "length (explosionPositions s) = particleCount s * 3"
    by (auto simp: wellSized_def)
  show "fst (updatePositions s) = None"
    using p lv by (simp add: updatePositions_def Let_def split_def positionLoop_completes)
  have "explosionParticles (snd (updatePositions s)) \<noteq> None"
    using p by (simp add: updatePositions_def Let_def split_def)
  then show "wellSized (snd (updatePositions s))"
    using lv lp
    by (simp add: wellSized_def updatePositions_fields updatePositions_positions positionLoop_length)
qed



section \<open>A frame on a well-sized state\<close>

lemma advanceClock_wellSized: "wellSized (advanceClock delta s) = wellSized s"
  by (rule wellSized_cong) (simp_all add: advanceClock_def)

lemma animate_completes:
  assumes "wellSized s"
  shows "animate delta s =
    (Completed (fst (addGalaxy (snd (updatePositions (advanceClock delta s))))),
     rotateGalaxy (snd (addGalaxy (snd (updatePositions (advanceClock delta s))))))"
proof -
  from assms have "fst (updatePositions (advanceClock delta s)) = None"
    by (simp add: updatePositions_wellSized advanceClock_wellSized)
  then show ?thesis
    by (simp add: animate_def split_def)
qed

lemma animate_explosion:
  assumes "wellSized s"
  shows "explosionParticles (snd (animate delta s)) =
           explosionParticles (snd (updatePositions (advanceClock delta s)))"
    and "explosionVelocities (snd (animate delta s)) = explosionVelocities s"
    and "particleCount (snd (animate delta s)) = particleCount s"
    and "explosionTime (snd (animate delta s)) = jadd (explosionTime s) (jmul delta (expansionSpeed s))"
  using assms
  by (simp_all add: animate_completes rotateGalaxy_explosion addGalaxy_explosion
        updatePositions_fields advanceClock_def)

lemma animate_wellSized:
  assumes "wellSized s"
  shows "wellSized (snd (animate delta s))"
proof -
  let ?u = "snd (updatePositions (advanceClock delta s))"
  have "wellSized ?u"
    using assms by (simp add: updatePositions_wellSized advanceClock_wellSized)
  moreover have "wellSized (snd (animate delta s)) = wellSized ?u"
    using assms
    by (intro wellSized_cong)
       (simp_all add: animate_explosion updatePositions_fields advanceClock_def)
  ultimately show ?thesis
    by simp
qed



lemma exampleState_wellSized: "wellSized exampleState"
  by (simp add: wellSized_def exampleState_def explosionPositions_def explosionGeometry_def)



section \<open>A frame on any state\<close>

lemma animate_cases:
  obtains (threw) e where "fst (updatePositions (advanceClock delta s)) = Some e"
      "animate delta s = (Threw e, snd (updatePositions (advanceClock delta s)))"
  | (completed) "fst (updatePositions (advanceClock delta s)) = None"
      "animate delta s =
         (Completed (fst (addGalaxy (snd (updatePositions (advanceClock delta s))))),
          rotateGalaxy (snd (addGalaxy (snd (updatePositions (advanceClock delta s))))))"
proof (cases "fst (updatePositions (advanceClock delta s))")
  case None
  then show ?thesis
    by (intro completed) (simp_all add: animate_def split_def)
next
  case (Some e)
  then show ?thesis
    by (intro threw [of e]) (simp_all add: animate_def split_def)
qed

lemma animate_clock:
  "explosionTime (snd (animate delta s)) = jadd (explosionTime s) (jmul delta (expansionSpeed s))"
  by (cases delta s rule: animate_cases)
     (simp_all add: rotateGalaxy_explosion addGalaxy_explosion updatePositions_fields advanceClock_def)

lemma animate_fields:
  "explosionVelocities (snd (animate delta s)) = explosionVelocities s"
  "particleCount (snd (animate delta s)) = particleCount s"
  "expansionSpeed (snd (animate delta s)) = expansionSpeed s"
  by (cases delta s rule: animate_cases;
      simp add: rotateGalaxy_explosion addGalaxy_explosion updatePositions_fields advanceClock_def)+

lemma addGalaxy_called:
  "fst (addGalaxy s) = (\<not> created s \<and> jgt (explosionTime s) (Fin 10))"
  by (simp add: addGalaxy_def)

text \<open>
  A frame calls \<^verbatim>\<open>createGalaxyParticles\<close> exactly when it gets past its position
  loop with the flag not set and the new time above ten.
\<close>

lemma animate_called:
  "fst (animate delta s) = Completed True \<longleftrightarrow>
     (\<exists>b. fst (animate delta s) = Completed b) \<and> \<not> created s \<and>
     jgt (explosionTime (snd (animate delta s))) (Fin 10)"
proof (cases delta s rule: animate_cases)
  case (threw e)
  then show ?thesis by simp
next
  case completed
  have "explosionTime (snd (updatePositions (advanceClock delta s))) = explosionTime (snd (animate delta s))"
    by (simp add: animate_clock updatePositions_fields advanceClock_def)
  then show ?thesis
    using completed(2) by (simp add: addGalaxy_called updatePositions_fields advanceClock_def)
qed

lemma animate_created:
  "created (snd (animate delta s)) = (created s \<or> fst (animate delta s) = Completed True)"
  by (cases delta s rule: animate_cases)
     (simp_all add: rotateGalaxy_explosion addGalaxy_explosion updatePositions_fields advanceClock_def)

lemma galaxyGeometry_rotateGalaxy: "galaxyGeometry (rotateGalaxy s) = galaxyGeometry s"
  by (simp add: galaxyGeometry_def rotateGalaxy_def split: option.splits)

lemma galaxyGeometry_cong:
  "galaxyParticles s = galaxyParticles s' \<Longrightarrow> galaxyGeometry s = galaxyGeometry s'"
  by (simp add: galaxyGeometry_def)

lemma addGalaxy_not_called:
  "\<not> fst (addGalaxy s) \<Longrightarrow> snd (addGalaxy s) = s"
  by (auto simp: addGalaxy_def)

text \<open>A frame that does not call \<^verbatim>\<open>createGalaxyParticles\<close> leaves the galaxy's arrays alone.\<close>

lemma animate_galaxy_kept:
  assumes "fst (animate delta s) \<noteq> Completed True"
  shows "galaxyGeometry (snd (animate delta s)) = galaxyGeometry s"
proof (cases delta s rule: animate_cases)
  case (threw e)
  then show ?thesis
    by (simp add: galaxyGeometry_def updatePositions_fields advanceClock_def)
next
  case completed
  with assms have "\<not> fst (addGalaxy (snd (updatePositions (advanceClock delta s))))"
    by simp
  then show ?thesis
    using completed(2)
    by (simp add: addGalaxy_not_called galaxyGeometry_rotateGalaxy)
       (simp add: galaxyGeometry_def updatePositions_fields advanceClock_def)
qed

text \<open>
  C4, as the code has it. From time \<open>0\<close>, with the galaxy's flag not set, one frame with
  \<open>delta = 5\<close> and \<open>expansionSpeed = 2\<close> makes the time exactly \<open>10\<close>, and does
  not create the galaxy: the test is \<^verbatim>\<open>explosionTime > 10\<close>, which \<open>10\<close> fails.
  The flag stays unset and the galaxy's arrays are as before.
\<close>

theorem animate_on_threshold:
  assumes "explosionTime s = Fin 0" and "expansionSpeed s = Fin 2" and "\<not> created s"
  shows "explosionTime (snd (animate (Fin 5) s)) = Fin 10 \<and>
         fst (animate (Fin 5) s) \<noteq> Completed True \<and>
         \<not> created (snd (animate (Fin 5) s)) \<and>
         galaxyGeometry (snd (animate (Fin 5) s)) = galaxyGeometry s"
proof -
  have t: "explosionTime (snd (animate (Fin 5) s)) = Fin 10"
    using assms by (simp add: animate_clock)
  then have n: "fst (animate (Fin 5) s) \<noteq> Completed True"
    by (simp add: animate_called)
  with assms(3) have "\<not> created (snd (animate (Fin 5) s))"
    by (simp add: animate_created)
  with t n show ?thesis
    by (simp add: animate_galaxy_kept)
qed

theorem animate_on_threshold_witness:
  "explosionTime thresholdState = Fin 0 \<and> expansionSpeed thresholdState = Fin 2 \<and>
   \<not> created thresholdState \<and>
   explosionTime (snd (animate (Fin 5) thresholdState)) = Fin 10 \<and>
   \<not> created (snd (animate (Fin 5) thresholdState))"
  using animate_on_threshold [of thresholdState]
  by (simp add: thresholdState_def exampleState_def)

text \<open>
  The claim as it is written fails on that state: the frame produces the time \<open>10\<close>
  and runs to its end, but it does not call \<^verbatim>\<open>createGalaxyParticles\<close>.
\<close>

theorem threshold_frame_creates_no_galaxy:
  "explosionTime thresholdState = Fin 0 \<and> \<not> created thresholdState \<and>
   expansionSpeed thresholdState = Fin 2 \<and>
   \<not> (explosionTime (snd (animate (Fin 5) thresholdState)) = Fin 10 \<and>
      fst (animate (Fin 5) thresholdState) = Completed True)"
proof -
  have "jadd (explosionTime thresholdState) (jmul (Fin 5) (expansionSpeed thresholdState)) = Fin 10"
    by (simp add: thresholdState_def exampleState_def)
  then have "\<not> jgt (explosionTime (snd (animate (Fin 5) thresholdState))) (Fin 10)"
    by (simp add: animate_clock)
  then have "fst (animate (Fin 5) thresholdState) \<noteq> Completed True"
    by (simp add: animate_called)
  then show ?thesis
    by (simp add: thresholdState_def exampleState_def)
qed








section \<open>Creating the explosion: what changes in the globals\<close>

lemma explosionBody_pushes:
  "snd (explosionBody i (g, s)) =
     s\<lparr>mathRandom := (\<lambda>k. mathRandom s (k + 9)),
       explosionVelocities :=
         explosionVelocities s @ [last (explosionVelocities (snd (explosionBody i (g, s))))]\<rparr>"
  by (simp add: explosionBody_def Math_random_def Let_def split_def eval_nat_numeral)

lemma explosionBody_state:
  "\<exists>v. snd (explosionBody i (g, s)) =
     s\<lparr>mathRandom := (\<lambda>k. mathRandom s (k + 9)),
       explosionVelocities := explosionVelocities s @ [v]\<rparr>"
  using explosionBody_pushes [of i g s] by (rule exI)

lemma explosionBody_lengths:
  "length (position_attr (fst (explosionBody i (g, s)))) = length (position_attr g)"
  "length (color_attr (fst (explosionBody i (g, s)))) = length (color_attr g)"
  "length (size_attr (fst (explosionBody i (g, s)))) = length (size_attr g)"
  by (simp_all add: explosionBody_def Math_random_def Let_def split_def)

lemma explosionLoop_state:
  "\<exists>r vs. snd (explosionLoop i n gs) =
     (snd gs)\<lparr>mathRandom := r, explosionVelocities := explosionVelocities (snd gs) @ vs\<rparr> \<and>
     length vs = n - i"
proof (induction i n gs rule: explosionLoop.induct)
  case (1 i n gs)
  show ?case
  proof (cases "i < n")
    case True
    obtain g s where gs: "gs = (g, s)"
      by (cases gs)
    obtain v where v: "snd (explosionBody i gs) =
        s\<lparr>mathRandom := (\<lambda>k. mathRandom s (k + 9)),
          explosionVelocities := explosionVelocities s @ [v]\<rparr>"
      using explosionBody_state [of i g s] gs by blast
    from 1 [OF True] obtain r vs where
      "snd (explosionLoop (Suc i) n (explosionBody i gs)) =
         (snd (explosionBody i gs))\<lparr>mathRandom := r,
            explosionVelocities := explosionVelocities (snd (explosionBody i gs)) @ vs\<rparr>"
      and "length vs = n - Suc i"
      by blast
    then have "snd (explosionLoop i n gs) =
        (snd gs)\<lparr>mathRandom := r, explosionVelocities := explosionVelocities (snd gs) @ (v # vs)\<rparr> \<and>
        length (v # vs) = n - i"
      using True gs v by (subst explosionLoop.simps) simp
    then show ?thesis
      by blast
  next
    case False
    have "snd (explosionLoop i n gs) =
        (snd gs)\<lparr>mathRandom := mathRandom (snd gs),
                 explosionVelocities := explosionVelocities (snd gs) @ []\<rparr> \<and>
        length ([] :: vec3 list) = n - i"
      using False by (subst explosionLoop.simps) simp
    then show ?thesis
      by blast
  qed
qed

lemma explosionLoop_lengths:
  "length (position_attr (fst (explosionLoop i n gs))) = length (position_attr (fst gs)) \<and>
   length (color_attr (fst (explosionLoop i n gs))) = length (color_attr (fst gs)) \<and>
   length (size_attr (fst (explosionLoop i n gs))) = length (size_attr (fst gs))"
proof (induction i n gs rule: explosionLoop.induct)
  case (1 i n gs)
  obtain g s where gs: "gs = (g, s)"
    by (cases gs)
  show ?case
  proof (cases "i < n")
    case True
    with 1 [OF True] gs show ?thesis
      by (subst (1 2 3) explosionLoop.simps) (simp add: explosionBody_lengths)
  next
    case False
    then show ?thesis
      by (subst (1 2 3) explosionLoop.simps) simp
  qed
qed

text \<open>
  The globals after \<^verbatim>\<open>createExplosionParticles\<close>: the random source has moved on,
  one velocity per particle was pushed behind those that were there, and the explosion
  is a new object, whose arrays have the sizes that the particle count asks for.
\<close>

lemma createExplosionParticles_state:
  "\<exists>r vs p. createExplosionParticles s =
     s\<lparr>mathRandom := r, explosionVelocities := explosionVelocities s @ vs,
       explosionParticles := Some p\<rparr> \<and>
     length vs = particleCount s \<and>
     length (position_attr (points_geometry p)) = particleCount s * 3 \<and>
     length (color_attr (points_geometry p)) = particleCount s * 3 \<and>
     length (size_attr (points_geometry p)) = particleCount s \<and>
     rotation_y p = Fin 0"
proof -
  let ?n = "particleCount s"
  let ?g0 = "\<lparr>position_attr = replicate (?n * 3) (Fin 0),
              color_attr = replicate (?n * 3) (Fin 0),
              size_attr = replicate ?n (Fin 0)\<rparr>"
  let ?l = "explosionLoop 0 ?n (?g0, s)"
  obtain r vs where l: "snd ?l = s\<lparr>mathRandom := r, explosionVelocities := explosionVelocities s @ vs\<rparr>"
    and vs: "length vs = ?n"
    using explosionLoop_state [of 0 ?n "(?g0, s)"] by auto
  let ?p = "\<lparr>points_geometry = fst ?l, rotation_y = Fin 0\<rparr>"
  have "createExplosionParticles s =
     s\<lparr>mathRandom := r, explosionVelocities := explosionVelocities s @ vs,
       explosionParticles := Some ?p\<rparr>"
    using l by (simp add: createExplosionParticles_def Let_def split_def)
  moreover have "length (position_attr (points_geometry ?p)) = ?n * 3"
    "length (color_attr (points_geometry ?p)) = ?n * 3"
    "length (size_attr (points_geometry ?p)) = ?n"
    using explosionLoop_lengths [of 0 ?n "(?g0, s)"] by simp_all
  ultimately show ?thesis
    using vs by (intro exI [of _ r] exI [of _ vs] exI [of _ ?p]) simp
qed

lemma onFinishChange_state:
  "\<exists>r vs p. onFinishChange n s =
     s\<lparr>mathRandom := r, explosionVelocities := vs, particleCount := n,
       explosionParticles := Some p\<rparr> \<and>
     length vs = n \<and>
     length (position_attr (points_geometry p)) = n * 3 \<and>
     length (color_attr (points_geometry p)) = n * 3 \<and>
     length (size_attr (points_geometry p)) = n \<and>
     rotation_y p = Fin 0"
proof -
  let ?s = "s\<lparr>explosionVelocities := [], particleCount := n\<rparr>"
  from createExplosionParticles_state [of ?s] obtain r vs p where
    "createExplosionParticles ?s =
       ?s\<lparr>mathRandom := r, explosionVelocities := explosionVelocities ?s @ vs,
          explosionParticles := Some p\<rparr>"
    and "length vs = n"
      "length (position_attr (points_geometry p)) = n * 3"
      "length (color_attr (points_geometry p)) = n * 3"
      "length (size_attr (points_geometry p)) = n" "rotation_y p = Fin 0"
    by auto
  then show ?thesis
    by (intro exI [of _ r] exI [of _ vs] exI [of _ p]) (simp add: onFinishChange_def)
qed


section \<open>Events and the galaxy\<close>

lemma onFinishChange_galaxy:
  "created (onFinishChange n s) = created s"
  "galaxyParticles (onFinishChange n s) = galaxyParticles s"
  "explosionTime (onFinishChange n s) = explosionTime s"
  "expansionSpeed (onFinishChange n s) = expansionSpeed s"
  "galaxySpread (onFinishChange n s) = galaxySpread s"
  "galaxyParticleCount (onFinishChange n s) = galaxyParticleCount s"
  "colorSetHSL (onFinishChange n s) = colorSetHSL s"
  "particleCount (onFinishChange n s) = n"
proof -
  obtain r vs p where
    "onFinishChange n s =
       s\<lparr>mathRandom := r, explosionVelocities := vs, particleCount := n,
         explosionParticles := Some p\<rparr>"
    using onFinishChange_state by blast
  then show "created (onFinishChange n s) = created s"
    "galaxyParticles (onFinishChange n s) = galaxyParticles s"
    "explosionTime (onFinishChange n s) = explosionTime s"
    "expansionSpeed (onFinishChange n s) = expansionSpeed s"
    "galaxySpread (onFinishChange n s) = galaxySpread s"
    "galaxyParticleCount (onFinishChange n s) = galaxyParticleCount s"
    "colorSetHSL (onFinishChange n s) = colorSetHSL s"
    "particleCount (onFinishChange n s) = n"
    by simp_all
qed

lemma step_created:
  "created (snd (step e s)) = (created s \<or> fst (step e s) = Some (Completed True))"
  by (cases e) (simp_all add: split_def animate_created onFinishChange_galaxy)

lemma step_called:
  "fst (step e s) = Some (Completed True) \<longleftrightarrow> \<not> created s \<and> exceeds e s"
proof (cases e)
  case (Frame delta)
  show ?thesis
  proof (cases "fst (animate delta s)")
    case (Threw x)
    with Frame show ?thesis
      by (simp add: exceeds_def split_def)
  next
    case (Completed b)
    with Frame animate_called [of delta s] show ?thesis
      by (auto simp: exceeds_def split_def)
  qed
qed (simp_all add: exceeds_def)

lemma step_galaxy_kept:
  "fst (step e s) \<noteq> Some (Completed True) \<Longrightarrow> galaxyGeometry (snd (step e s)) = galaxyGeometry s"
proof (cases e)
  case (Frame delta)
  assume "fst (step e s) \<noteq> Some (Completed True)"
  with Frame show ?thesis
    by (simp add: split_def animate_galaxy_kept)
qed (simp_all add: galaxyGeometry_def onFinishChange_galaxy)

lemma createCalls_Cons:
  "createCalls (e # es) s = (fst (step e s) = Some (Completed True)) # createCalls es (snd (step e s))"
  by (simp add: createCalls_def)

lemma length_createCalls: "length (createCalls es s) = length es"
  by (induction es arbitrary: s) (simp_all add: createCalls_def)

lemma length_exceedTrace: "length (exceedTrace es s) = length es"
  by (induction es arbitrary: s) simp_all

text \<open>Once the flag is set, no event of a run clears it, and no frame creates a galaxy.\<close>

lemma created_run:
  "created s \<Longrightarrow> created (run es s) \<and> createCalls es s = replicate (length es) False \<and>
     galaxyGeometry (run es s) = galaxyGeometry s"
proof (induction es arbitrary: s)
  case Nil
  then show ?case
    by (simp add: createCalls_def)
next
  case (Cons e es)
  from Cons.prems have n: "fst (step e s) \<noteq> Some (Completed True)"
    by (simp add: step_called)
  from Cons.prems have "created (snd (step e s))"
    by (simp add: step_created)
  from Cons.IH [OF this] n show ?case
    by (simp add: createCalls_Cons step_galaxy_kept)
qed

lemma onlyFirst_count: "length (filter id (onlyFirst bs)) \<le> 1"
  by (induction bs) simp_all

text \<open>
  C8. Once the galaxy has been created, which sets its flag, nothing that can happen
  in a run changes the position, colour and size arrays of its geometry: neither a frame,
  whatever its delta, nor a write to a parameter, nor the regeneration of the explosion.
  The flag stays set.
\<close>

theorem galaxy_static:
  assumes "created s"
  shows "galaxyGeometry (run es s) = galaxyGeometry s \<and> created (run es s)"
  using created_run [OF assms] by simp

text \<open>
  C3. In a run that starts with the flag not set, \<^verbatim>\<open>createGalaxyParticles\<close> is called
  by the first frame that reaches its test with the explosion time above ten, and by no
  other event: at most once in the run, whatever the deltas of its frames, and not again
  after a regeneration of the explosion, which leaves the flag as it is.
\<close>

theorem galaxy_created_once:
  assumes "\<not> created s"
  shows "createCalls es s = onlyFirst (exceedTrace es s) \<and>
         length (filter id (createCalls es s)) \<le> 1 \<and>
         created (run es s) = (True \<in> set (exceedTrace es s)) \<and>
         created (onFinishChange n (run es s)) = created (run es s)"
proof -
  have "createCalls es s = onlyFirst (exceedTrace es s) \<and>
        created (run es s) = (True \<in> set (exceedTrace es s))"
    using assms
  proof (induction es arbitrary: s)
    case Nil
    then show ?case
      by (simp add: createCalls_def)
  next
    case (Cons e es)
    show ?case
    proof (cases "exceeds e s")
      case True
      with Cons.prems have c: "fst (step e s) = Some (Completed True)"
        by (simp add: step_called)
      then have "created (snd (step e s))"
        by (simp add: step_created)
      from created_run [OF this, of es] c True show ?thesis
        by (simp add: createCalls_Cons length_exceedTrace)
    next
      case False
      then have c: "fst (step e s) \<noteq> Some (Completed True)"
        by (simp add: step_called)
      with Cons.prems have "\<not> created (snd (step e s))"
        by (simp add: step_created)
      from Cons.IH [OF this] c False show ?thesis
        by (simp add: createCalls_Cons)
    qed
  qed
  then show ?thesis
    using onlyFirst_count [of "exceedTrace es s"] by (simp add: onFinishChange_galaxy)
qed


section \<open>Runs on well-sized states\<close>

lemma onFinishChange_wellSized: "wellSized (onFinishChange n s)"
proof -
  obtain r vs p where
    "onFinishChange n s =
       s\<lparr>mathRandom := r, explosionVelocities := vs, particleCount := n,
         explosionParticles := Some p\<rparr>"
    and "length vs = n" and "length (position_attr (points_geometry p)) = n * 3"
    using onFinishChange_state by blast
  then show ?thesis
    by (simp add: wellSized_def explosionPositions_def explosionGeometry_def)
qed

lemma step_wellSized:
  assumes "wellSized s" and "\<And>n. e \<noteq> SetParticleCount n"
  shows "wellSized (snd (step e s))"
proof (cases e)
  case (Frame delta)
  with assms(1) show ?thesis
    by (simp add: split_def animate_wellSized)
next
  case (SetParticleCount n)
  with assms(2) [of n] show ?thesis
    by simp
next
  case (FinishParticleCount n)
  then show ?thesis
    by (simp add: onFinishChange_wellSized)
qed (use assms(1) in \<open>simp_all add: wellSized_def explosionPositions_def explosionGeometry_def\<close>)

lemma exceeds_Frame:
  assumes "wellSized s"
  shows "exceeds (Frame delta) s =
           jgt (jadd (explosionTime s) (jmul delta (expansionSpeed s))) (Fin 10)"
proof -
  obtain b where "fst (animate delta s) = Completed b"
    by (simp add: animate_completes [OF assms])
  then show ?thesis
    by (simp add: exceeds_def split_def animate_clock)
qed

lemma animate_creates:
  assumes "fst (animate delta s) = Completed True"
  shows "galaxyGeometry (snd (animate delta s)) \<noteq> None"
proof (cases delta s rule: animate_cases)
  case (threw e)
  with assms show ?thesis
    by simp
next
  case completed
  let ?u = "snd (updatePositions (advanceClock delta s))"
  from completed(2) assms have c: "\<not> created ?u \<and> jgt (explosionTime ?u) (Fin 10)"
    by (simp add: addGalaxy_called)
  obtain r q where "createGalaxyParticles ?u = ?u\<lparr>mathRandom := r, galaxyParticles := Some q\<rparr>"
    using createGalaxyParticles_state by blast
  with c have "galaxyParticles (snd (addGalaxy ?u)) = Some q"
    by (simp add: addGalaxy_def)
  then have "galaxyGeometry (snd (addGalaxy ?u)) \<noteq> None"
    by (simp add: galaxyGeometry_def)
  then show ?thesis
    using completed(2) by (simp add: galaxyGeometry_rotateGalaxy)
qed

lemma exampleState_fields:
  "explosionTime exampleState = Fin 0" "expansionSpeed exampleState = Fin 1"
  "particleCount exampleState = 1" "\<not> created exampleState"
  "explosionVelocities exampleState = [Vec3 (Fin 3) (Fin 0) (Fin 4)]"
  by (simp_all add: exampleState_def)

theorem galaxy_static_witness:
  "created (snd (animate (Fin 11) exampleState)) \<and>
   galaxyGeometry (snd (animate (Fin 11) exampleState)) \<noteq> None \<and>
   galaxyGeometry
     (run [Frame (Fin 1), FinishParticleCount 3, SetGalaxySpread (Fin 100), Frame (Fin (- 20))]
        (snd (animate (Fin 11) exampleState))) =
   galaxyGeometry (snd (animate (Fin 11) exampleState))"
proof -
  have "\<exists>b. fst (animate (Fin 11) exampleState) = Completed b"
    by (simp add: animate_completes [OF exampleState_wellSized])
  then have c: "fst (animate (Fin 11) exampleState) = Completed True"
    by (simp add: animate_called animate_clock exampleState_fields)
  then have "created (snd (animate (Fin 11) exampleState))"
    by (simp add: animate_created)
  with galaxy_static [of "snd (animate (Fin 11) exampleState)"
      "[Frame (Fin 1), FinishParticleCount 3, SetGalaxySpread (Fin 100), Frame (Fin (- 20))]"]
    animate_creates [OF c]
  show ?thesis
    by blast
qed

theorem galaxy_created_once_witness:
  "\<not> created exampleState \<and>
   createCalls [Frame (Fin 6), Frame (Fin 6), FinishParticleCount 2, Frame (Fin 6)] exampleState =
     [False, True, False, False]"
proof -
  let ?s1 = "snd (step (Frame (Fin 6)) exampleState)"
  have 1: "\<not> exceeds (Frame (Fin 6)) exampleState"
    by (simp add: exceeds_Frame exampleState_wellSized exampleState_fields)
  have "wellSized ?s1"
    by (simp add: split_def animate_wellSized exampleState_wellSized)
  then have 2: "exceeds (Frame (Fin 6)) ?s1"
    by (simp add: exceeds_Frame) (simp add: split_def animate_clock animate_fields exampleState_fields)
  from galaxy_created_once
    [of exampleState "[Frame (Fin 6), Frame (Fin 6), FinishParticleCount 2, Frame (Fin 6)]"] 1 2
  show ?thesis
    by (simp add: exampleState_fields)
qed


section \<open>Regenerating the explosion\<close>

lemma explosionBody_colorSetHSL:
  "colorSetHSL (snd (explosionBody i (g, s))) = colorSetHSL s"
proof -
  obtain v where "snd (explosionBody i (g, s)) =
     s\<lparr>mathRandom := (\<lambda>k. mathRandom s (k + 9)),
       explosionVelocities := explosionVelocities s @ [v]\<rparr>"
    using explosionBody_state by blast
  then show ?thesis
    by simp
qed

text \<open>
  What an iteration computes depends on the arrays it is given, on the random source, on
  the colour conversion and on the velocities already pushed, and on nothing else in the
  globals.
\<close>

lemma explosionBody_same:
  assumes "mathRandom s = mathRandom s2" and "colorSetHSL s = colorSetHSL s2"
    and "explosionVelocities s = explosionVelocities s2"
  shows "fst (explosionBody i (g, s)) = fst (explosionBody i (g, s2))"
    and "mathRandom (snd (explosionBody i (g, s))) = mathRandom (snd (explosionBody i (g, s2)))"
    and "explosionVelocities (snd (explosionBody i (g, s))) =
           explosionVelocities (snd (explosionBody i (g, s2)))"
  using assms by (simp_all add: explosionBody_def Math_random_def Let_def split_def)

lemma explosionLoop_same:
  assumes "fst gs = fst gs2" and "mathRandom (snd gs) = mathRandom (snd gs2)"
    and "colorSetHSL (snd gs) = colorSetHSL (snd gs2)"
    and "explosionVelocities (snd gs) = explosionVelocities (snd gs2)"
  shows "fst (explosionLoop i n gs) = fst (explosionLoop i n gs2) \<and>
         explosionVelocities (snd (explosionLoop i n gs)) =
           explosionVelocities (snd (explosionLoop i n gs2))"
  using assms
proof (induction i n gs arbitrary: gs2 rule: explosionLoop.induct)
  case (1 i n gs)
  obtain g s where gs: "gs = (g, s)"
    by (cases gs)
  obtain g2 s2 where gs2: "gs2 = (g2, s2)"
    by (cases gs2)
  from 1(2-) gs gs2 have eq: "g2 = g" "mathRandom s = mathRandom s2"
    "colorSetHSL s = colorSetHSL s2" "explosionVelocities s = explosionVelocities s2"
    by simp_all
  show ?case
  proof (cases "i < n")
    case True
    have "fst (explosionLoop (Suc i) n (explosionBody i gs)) =
            fst (explosionLoop (Suc i) n (explosionBody i gs2)) \<and>
          explosionVelocities (snd (explosionLoop (Suc i) n (explosionBody i gs))) =
            explosionVelocities (snd (explosionLoop (Suc i) n (explosionBody i gs2)))"
      using explosionBody_same [OF eq(2-4), of i g] eq gs gs2
      by (intro 1(1) [OF True]) (simp_all add: explosionBody_colorSetHSL)
    then show ?thesis
      using True by (subst (1 2) explosionLoop.simps) (subst (3 4) explosionLoop.simps, simp)
  next
    case False
    then show ?thesis
      using 1(2-) by (subst (1 2) explosionLoop.simps) (subst (3 4) explosionLoop.simps, simp)
  qed
qed

lemma onFinishChange_same:
  assumes "mathRandom s = mathRandom s2" and "colorSetHSL s = colorSetHSL s2"
  shows "explosionVelocities (onFinishChange n s) = explosionVelocities (onFinishChange n s2) \<and>
         explosionGeometry (onFinishChange n s) = explosionGeometry (onFinishChange n s2)"
proof -
  let ?g0 = "\<lparr>position_attr = replicate (n * 3) (Fin 0),
              color_attr = replicate (n * 3) (Fin 0),
              size_attr = replicate n (Fin 0)\<rparr>"
  let ?t = "s\<lparr>explosionVelocities := [], particleCount := n\<rparr>"
  let ?t2 = "s2\<lparr>explosionVelocities := [], particleCount := n\<rparr>"
  have "fst (explosionLoop 0 n (?g0, ?t)) = fst (explosionLoop 0 n (?g0, ?t2)) \<and>
        explosionVelocities (snd (explosionLoop 0 n (?g0, ?t))) =
          explosionVelocities (snd (explosionLoop 0 n (?g0, ?t2)))"
    using assms by (intro explosionLoop_same) simp_all
  then show ?thesis
    by (simp add: onFinishChange_def createExplosionParticles_def Let_def split_def
          explosionGeometry_def)
qed


text \<open>
  C2, as the code has it. The callback for a new particle count leaves an explosion of
  exactly that many particles: the count is the new one, the velocity array has that many
  entries, and the position, colour and size arrays of the new geometry have three times,
  three times and once that many cells. Nothing of the old arrays is in the new ones: the
  new velocities and the new geometry are those that the callback produces from any other
  state with the same random source and colour conversion. The explosion time is not
  reset: it keeps its value.
\<close>

theorem regenerate_replaces_population:
  assumes "mathRandom s2 = mathRandom s" and "colorSetHSL s2 = colorSetHSL s"
  shows "particleCount (onFinishChange n s) = n \<and>
         length (explosionVelocities (onFinishChange n s)) = n \<and>
         (\<exists>g. explosionGeometry (onFinishChange n s) = Some g \<and>
              length (position_attr g) = n * 3 \<and> length (color_attr g) = n * 3 \<and>
              length (size_attr g) = n) \<and>
         explosionVelocities (onFinishChange n s) = explosionVelocities (onFinishChange n s2) \<and>
         explosionGeometry (onFinishChange n s) = explosionGeometry (onFinishChange n s2) \<and>
         explosionTime (onFinishChange n s) = explosionTime s"
proof -
  obtain r vs p where
    "onFinishChange n s =
       s\<lparr>mathRandom := r, explosionVelocities := vs, particleCount := n,
         explosionParticles := Some p\<rparr>"
    and "length vs = n" and "length (position_attr (points_geometry p)) = n * 3"
    and "length (color_attr (points_geometry p)) = n * 3"
    and "length (size_attr (points_geometry p)) = n"
    using onFinishChange_state by blast
  then have "particleCount (onFinishChange n s) = n \<and>
         length (explosionVelocities (onFinishChange n s)) = n \<and>
         (\<exists>g. explosionGeometry (onFinishChange n s) = Some g \<and>
              length (position_attr g) = n * 3 \<and> length (color_attr g) = n * 3 \<and>
              length (size_attr g) = n) \<and>
         explosionTime (onFinishChange n s) = explosionTime s"
    by (simp add: explosionGeometry_def)
  with onFinishChange_same [of s s2 n] assms show ?thesis
    by simp
qed

theorem regenerate_replaces_population_witness:
  "mathRandom blankState = mathRandom exampleState \<and>
   colorSetHSL blankState = colorSetHSL exampleState \<and>
   explosionVelocities exampleState \<noteq> explosionVelocities blankState \<and>
   length (explosionVelocities (onFinishChange 2 exampleState)) = 2 \<and>
   explosionVelocities (onFinishChange 2 exampleState) =
     explosionVelocities (onFinishChange 2 blankState) \<and>
   explosionGeometry (onFinishChange 2 exampleState) =
     explosionGeometry (onFinishChange 2 blankState)"
proof -
  have h: "mathRandom blankState = mathRandom exampleState"
    "colorSetHSL blankState = colorSetHSL exampleState"
    by (simp_all add: blankState_def)
  have "explosionVelocities exampleState \<noteq> explosionVelocities blankState"
    by (simp add: blankState_def exampleState_def)
  with h regenerate_replaces_population [OF h, of 2] show ?thesis
    by blast
qed

text \<open>
  The claim as it is written fails after a frame of delta \<open>5\<close> on the example state:
  the explosion time is \<open>5\<close> then, and it is still \<open>5\<close>, not \<open>0\<close>, after the
  regeneration with two particles.
\<close>

theorem regenerate_keeps_clock:
  "explosionTime (snd (animate (Fin 5) exampleState)) = Fin 5 \<and>
   explosionTime (onFinishChange 2 (snd (animate (Fin 5) exampleState))) = Fin 5 \<and>
   \<not> (particleCount (onFinishChange 2 (snd (animate (Fin 5) exampleState))) = 2 \<and>
      explosionTime (onFinishChange 2 (snd (animate (Fin 5) exampleState))) = Fin 0)"
  by (simp add: onFinishChange_galaxy animate_clock exampleState_fields)

section \<open>A particle count written without regeneration\<close>

lemma animate_throws:
  assumes "explosionParticles s \<noteq> None" and "length (explosionVelocities s) < particleCount s"
  shows "fst (animate delta s) = Threw TypeError"
proof -
  from assms(1) obtain p where "explosionParticles (advanceClock delta s) = Some p"
    by (auto simp: advanceClock_def)
  moreover have "length (explosionVelocities (advanceClock delta s)) < particleCount (advanceClock delta s)"
    using assms(2) by (simp add: advanceClock_def)
  ultimately have "fst (updatePositions (advanceClock delta s)) = Some TypeError"
    by (simp add: updatePositions_def Let_def split_def positionLoop_throws)
  then show ?thesis
    by (simp add: animate_def split_def)
qed

lemma init_wellSized: "wellSized (init rnd hsl)"
proof -
  obtain r vs p where
    "createExplosionParticles (globals rnd hsl) =
       (globals rnd hsl)\<lparr>mathRandom := r,
          explosionVelocities := explosionVelocities (globals rnd hsl) @ vs,
          explosionParticles := Some p\<rparr>"
    and "length vs = particleCount (globals rnd hsl)"
    and "length (position_attr (points_geometry p)) = particleCount (globals rnd hsl) * 3"
    using createExplosionParticles_state by blast
  then show ?thesis
    by (simp add: init_def wellSized_def explosionPositions_def explosionGeometry_def globals_def)
qed

lemma init_particleCount: "particleCount (init rnd hsl) = 10000"
proof -
  obtain r vs p where
    "createExplosionParticles (globals rnd hsl) =
       (globals rnd hsl)\<lparr>mathRandom := r,
          explosionVelocities := explosionVelocities (globals rnd hsl) @ vs,
          explosionParticles := Some p\<rparr>"
    using createExplosionParticles_state by blast
  then show ?thesis
    by (simp add: init_def globals_def)
qed

text \<open>
  In a run in which the particle count is only written together with the regeneration,
  every state is well-sized, so that (by \<open>animate_completes\<close>) no frame throws.
\<close>

lemma run_wellSized:
  assumes "wellSized s" and "\<And>n. SetParticleCount n \<notin> set es"
  shows "wellSized (run es s)"
  using assms
proof (induction es arbitrary: s)
  case Nil
  then show ?case by simp
next
  case (Cons e es)
  have "wellSized (snd (step e s))"
    using Cons.prems by (intro step_wellSized) auto
  then show ?case
    using Cons.prems(2) by (simp add: Cons.IH)
qed

text \<open>
  C10 fails on the code. After start-up with the 10000 particles of the script, the
  parameter panel writes the particle count 11000; in the frame that follows, the velocity
  array still has 10000 entries where the count says 11000, and the position loop throws
  a \<^verbatim>\<open>TypeError\<close> when it reads the velocity of index 10000.
\<close>

theorem stale_count_frame_throws:
  "length (explosionVelocities staleState) = 10000 \<and> particleCount staleState = 11000 \<and>
   length (explosionPositions staleState) = 30000 \<and>
   fst (animate (Fin (1 / 60)) staleState) = Threw TypeError"
proof -
  have w: "wellSized startState" and n: "particleCount startState = 10000"
    by (simp_all add: startState_def init_wellSized init_particleCount)
  then have "length (explosionVelocities staleState) = 10000"
    and "particleCount staleState = 11000"
    and "length (explosionPositions staleState) = 30000"
    and "explosionParticles staleState \<noteq> None"
    by (simp_all add: staleState_def wellSized_def explosionPositions_def explosionGeometry_def)
  then show ?thesis
    by (simp add: animate_throws)
qed


section \<open>Where the galaxy particles are\<close>



lemma magnitude_Fin:
  "magnitude (Vec3 (Fin a) (Fin b) (Fin c)) = Fin (sqrt (a * a + b * b + c * c))"
proof -
  have "0 \<le> a * a + b * b + c * c"
    by (intro add_nonneg_nonneg zero_le_square)
  then show ?thesis
    by (simp add: magnitude_def not_less)
qed

lemma randomOk_shift: "randomOk rnd \<Longrightarrow> randomOk (\<lambda>k. rnd (k + m))"
  by (simp add: randomOk_def)








section \<open>The velocities of the explosion\<close>

lemma explosionBody_velocity:
  "explosionVelocities (snd (explosionBody i (g, s))) =
     explosionVelocities s @ [velocityFrom (mathRandom s)]"
  by (simp add: explosionBody_def Math_random_def Let_def split_def eval_nat_numeral
        velocityFrom_def normalized_def rawDirection_def magnitude_def speedFactor_def)

lemma explosionBody_mathRandom:
  "mathRandom (snd (explosionBody i (g, s))) = (\<lambda>k. mathRandom s (k + 9))"
proof -
  obtain v where "snd (explosionBody i (g, s)) =
     s\<lparr>mathRandom := (\<lambda>k. mathRandom s (k + 9)),
       explosionVelocities := explosionVelocities s @ [v]\<rparr>"
    using explosionBody_state by blast
  then show ?thesis
    by simp
qed

text \<open>
  The loop pushes one velocity for each index from \<open>i\<close> to \<open>n\<close>, each from the
  nine draws of its own iteration.
\<close>

lemma explosionLoop_velocities:
  "explosionVelocities (snd (explosionLoop i n gs)) =
     explosionVelocities (snd gs) @
       map (\<lambda>k. velocityFrom (\<lambda>m. mathRandom (snd gs) (m + 9 * k))) [0..<n - i]"
proof (induction i n gs rule: explosionLoop.induct)
  case (1 i n gs)
  obtain g s where gs: "gs = (g, s)"
    by (cases gs)
  show ?case
  proof (cases "i < n")
    case True
    then have upt: "[0..<n - i] = 0 # map Suc [0..<n - Suc i]"
      by (metis Suc_diff_Suc map_Suc_upt upt_conv_Cons zero_less_Suc)
    have "explosionVelocities (snd (explosionLoop i n gs)) =
            explosionVelocities (snd (explosionLoop (Suc i) n (explosionBody i gs)))"
      using True by (subst explosionLoop.simps) simp
    also have "\<dots> = (explosionVelocities s @ [velocityFrom (mathRandom s)]) @
        map (\<lambda>k. velocityFrom (\<lambda>m. mathRandom s (m + 9 * k + 9))) [0..<n - Suc i]"
      using 1 [OF True] gs
      by (simp add: explosionBody_velocity explosionBody_mathRandom add.assoc)
    also have "\<dots> = explosionVelocities s @
        map (\<lambda>k. velocityFrom (\<lambda>m. mathRandom s (m + 9 * k))) [0..<n - i]"
      by (simp add: upt o_def add.assoc add.commute [of 9])
    finally show ?thesis
      using gs by simp
  next
    case False
    then show ?thesis
      by (subst explosionLoop.simps) simp
  qed
qed

lemma onFinishChange_velocities:
  "explosionVelocities (onFinishChange n s) =
     map (\<lambda>k. velocityFrom (\<lambda>m. mathRandom s (m + 9 * k))) [0..<n]"
  using explosionLoop_velocities [of 0 n]
  by (simp add: onFinishChange_def createExplosionParticles_def Let_def split_def)


lemma unit_scaled_bounds:
  fixes a b c s1 s2 s3 :: real
  assumes unit: "a * a + b * b + c * c = 1"
    and s: "2 \<le> s1" "s1 \<le> 7" "2 \<le> s2" "s2 \<le> 7" "2 \<le> s3" "s3 \<le> 7"
  shows "2 \<le> sqrt (a * s1 * (a * s1) + b * s2 * (b * s2) + c * s3 * (c * s3))"
    and "sqrt (a * s1 * (a * s1) + b * s2 * (b * s2) + c * s3 * (c * s3)) \<le> 7"
proof -
  have sq: "4 \<le> t * t \<and> t * t \<le> 49" if "2 \<le> t" "t \<le> 7" for t :: real
  proof -
    have "2 * 2 \<le> t * t" and "t * t \<le> 7 * 7"
      using that by (intro mult_mono; simp)+
    then show ?thesis
      by simp
  qed
  have bound: "4 * (d * d) \<le> d * t * (d * t) \<and> d * t * (d * t) \<le> 49 * (d * d)"
    if "2 \<le> t" "t \<le> 7" for d t :: real
  proof -
    have "0 \<le> d * d"
      by simp
    with sq [OF that] have "(d * d) * 4 \<le> (d * d) * (t * t)" and "(d * d) * (t * t) \<le> (d * d) * 49"
      by (intro mult_left_mono; simp)+
    then show ?thesis
      by (simp add: mult_ac)
  qed
  let ?q = "a * s1 * (a * s1) + b * s2 * (b * s2) + c * s3 * (c * s3)"
  have "4 * (a * a + b * b + c * c) \<le> ?q" and "?q \<le> 49 * (a * a + b * b + c * c)"
    using bound [OF s(1,2), of a] bound [OF s(3,4), of b] bound [OF s(5,6), of c]
    by (simp_all add: distrib_left)
  then have "4 \<le> ?q" and "?q \<le> 49"
    by (simp_all add: unit)
  then have "sqrt 4 \<le> sqrt ?q" and "sqrt ?q \<le> sqrt 49"
    by (simp_all only: real_sqrt_le_iff)
  moreover have "sqrt 4 = (2::real)" and "sqrt 49 = (7::real)"
    using real_sqrt_abs2 [of "2::real"] real_sqrt_abs2 [of "7::real"] by simp_all
  ultimately show "2 \<le> sqrt ?q" and "sqrt ?q \<le> 7"
    by simp_all
qed

lemma unit_of_division:
  fixes a b c l :: real
  assumes "l \<noteq> 0" and "l * l = a * a + b * b + c * c"
  shows "a / l * (a / l) + b / l * (b / l) + c / l * (c / l) = 1"
proof -
  have "a / l * (a / l) + b / l * (b / l) + c / l * (c / l) = (a * a + b * b + c * c) / (l * l)"
    by (simp add: add_divide_distrib)
  also have "\<dots> = (l * l) / (l * l)"
    by (simp only: assms(2))
  also have "\<dots> = 1"
    using assms(1) by simp
  finally show ?thesis .
qed

lemma squares_positive:
  fixes a b c :: real
  assumes "\<not> (a = 0 \<and> b = 0 \<and> c = 0)"
  shows "0 < a * a + b * b + c * c"
proof -
  have "0 \<le> a * a" "0 \<le> b * b" "0 \<le> c * c"
    by simp_all
  moreover from assms have "0 < a * a \<or> 0 < b * b \<or> 0 < c * c"
    by (auto simp: zero_less_mult_iff not_less)
  ultimately show ?thesis
    by linarith
qed

text \<open>
  When the three draws of the raw direction are not all \<open>1/2\<close>, the raw direction has
  a positive length, the direction divided by it has length one, and the velocity has a
  length between two and seven.
\<close>

lemma velocityFrom_regular:
  assumes "randomOk rnd" and "\<not> (rnd 3 = 1 / 2 \<and> rnd 4 = 1 / 2 \<and> rnd 5 = 1 / 2)"
  shows "\<exists>l. magnitude (rawDirection (rnd 3) (rnd 4) (rnd 5)) = Fin l \<and> 0 < l"
    and "magnitude (normalized (rawDirection (rnd 3) (rnd 4) (rnd 5))) = Fin 1"
    and "distanceBetween 2 7 (velocityFrom rnd)"
proof -
  define a where "a = rnd 3 - 1 / 2"
  define b where "b = rnd 4 - 1 / 2"
  define c where "c = rnd 5 - 1 / 2"
  define l where "l = sqrt (a * a + b * b + c * c)"
  define s1 where "s1 = rnd 6 * 5 + 2"
  define s2 where "s2 = rnd 7 * 5 + 2"
  define s3 where "s3 = rnd 8 * 5 + 2"
  from assms(2) have "\<not> (a = 0 \<and> b = 0 \<and> c = 0)"
    by (simp add: a_def b_def c_def)
  then have q: "0 < a * a + b * b + c * c"
    by (rule squares_positive)
  then have l: "0 < l"
    by (simp add: l_def)
  have raw: "rawDirection (rnd 3) (rnd 4) (rnd 5) = Vec3 (Fin a) (Fin b) (Fin c)"
    by (simp add: rawDirection_def jsub_def a_def b_def c_def)
  have m: "magnitude (Vec3 (Fin a) (Fin b) (Fin c)) = Fin l"
    by (simp add: magnitude_Fin l_def)
  show "\<exists>l. magnitude (rawDirection (rnd 3) (rnd 4) (rnd 5)) = Fin l \<and> 0 < l"
    using raw m l by simp
  have n: "normalized (rawDirection (rnd 3) (rnd 4) (rnd 5)) = Vec3 (Fin (a / l)) (Fin (b / l)) (Fin (c / l))"
    using l by (simp add: normalized_def raw m)
  have unit: "a / l * (a / l) + b / l * (b / l) + c / l * (c / l) = 1"
    using l q by (intro unit_of_division) (simp_all add: l_def)
  show "magnitude (normalized (rawDirection (rnd 3) (rnd 4) (rnd 5))) = Fin 1"
    by (simp only: n magnitude_Fin unit real_sqrt_one)
  from assms(1) have s: "2 \<le> s1" "s1 \<le> 7" "2 \<le> s2" "s2 \<le> 7" "2 \<le> s3" "s3 \<le> 7"
    by (simp_all add: randomOk_def s1_def s2_def s3_def less_imp_le)
  have v: "velocityFrom rnd = Vec3 (Fin (a / l * s1)) (Fin (b / l * s2)) (Fin (c / l * s3))"
    by (simp add: velocityFrom_def n speedFactor_def s1_def s2_def s3_def)
  show "distanceBetween 2 7 (velocityFrom rnd)"
    using unit_scaled_bounds [OF unit s]
    by (simp only: distanceBetween_def v magnitude_Fin jle.simps)
qed

text \<open>
  When they are all \<open>1/2\<close>, the raw direction is the zero vector, its length is zero,
  and each division is \<^verbatim>\<open>0 / 0\<close>: every component of the velocity is \<^verbatim>\<open>NaN\<close>.
\<close>

lemma velocityFrom_half:
  assumes "rnd 3 = 1 / 2" and "rnd 4 = 1 / 2" and "rnd 5 = 1 / 2"
  shows "magnitude (rawDirection (rnd 3) (rnd 4) (rnd 5)) = Fin 0"
    and "normalized (rawDirection (rnd 3) (rnd 4) (rnd 5)) = Vec3 NaN NaN NaN"
    and "velocityFrom rnd = Vec3 NaN NaN NaN"
proof -
  have raw: "rawDirection (rnd 3) (rnd 4) (rnd 5) = Vec3 (Fin 0) (Fin 0) (Fin 0)"
    unfolding assms by (simp add: rawDirection_def jsub_def)
  show m: "magnitude (rawDirection (rnd 3) (rnd 4) (rnd 5)) = Fin 0"
    by (simp add: raw magnitude_Fin)
  show n: "normalized (rawDirection (rnd 3) (rnd 4) (rnd 5)) = Vec3 NaN NaN NaN"
    by (simp add: normalized_def m) (simp add: raw)
  show "velocityFrom rnd = Vec3 NaN NaN NaN"
    by (simp add: velocityFrom_def n)
qed


lemma init_velocities:
  "explosionVelocities (init rnd hsl) =
     map (\<lambda>k. velocityFrom (\<lambda>m. rnd (m + 9 * k))) [0..<10000]"
  using explosionLoop_velocities [of 0 10000]
  by (simp add: init_def createExplosionParticles_def Let_def split_def globals_def)

text \<open>
  In an explosion for which no particle draws \<open>1/2\<close> three times for its raw
  direction, every velocity has a length between two and seven.
\<close>

lemma regular_velocities:
  assumes "randomOk (mathRandom s)"
    and "\<forall>k<n. \<not> (mathRandom s (9 * k + 3) = 1 / 2 \<and> mathRandom s (9 * k + 4) = 1 / 2 \<and>
                  mathRandom s (9 * k + 5) = 1 / 2)"
    and "i < n"
  shows "distanceBetween 2 7 (explosionVelocities (onFinishChange n s) ! i)"
proof -
  let ?rnd = "\<lambda>m. mathRandom s (m + 9 * i)"
  have "randomOk ?rnd"
    using assms(1) by (rule randomOk_shift)
  moreover have "\<not> (?rnd 3 = 1 / 2 \<and> ?rnd 4 = 1 / 2 \<and> ?rnd 5 = 1 / 2)"
    using assms(2,3) by (simp add: add.commute)
  ultimately have "distanceBetween 2 7 (velocityFrom ?rnd)"
    by (rule velocityFrom_regular)
  then show ?thesis
    using assms(3) by (simp add: onFinishChange_velocities)
qed

text \<open>
  C9 fails on the code. When the three draws for the raw direction of a particle are all
  \<open>1/2\<close>, as for the first particle here, the raw direction is the zero vector and its
  length is zero; each component is then divided by zero, the result is \<^verbatim>\<open>NaN\<close> and not
  a vector of length one, and the velocity stored at start-up for the particle is
  \<^verbatim>\<open>NaN\<close> in every component.
\<close>

theorem zero_direction_divides_by_zero:
  "magnitude (rawDirection (halfDraws 3) (halfDraws 4) (halfDraws 5)) = Fin 0 \<and>
   normalized (rawDirection (halfDraws 3) (halfDraws 4) (halfDraws 5)) = Vec3 NaN NaN NaN \<and>
   magnitude (normalized (rawDirection (halfDraws 3) (halfDraws 4) (halfDraws 5))) \<noteq> Fin 1 \<and>
   explosionVelocities halfStart ! 0 = Vec3 NaN NaN NaN"
proof -
  have h: "halfDraws 3 = 1 / 2" "halfDraws 4 = 1 / 2" "halfDraws 5 = 1 / 2"
    by (simp_all add: halfDraws_def)
  have "explosionVelocities halfStart ! 0 = velocityFrom halfDraws"
    by (simp add: halfStart_def init_velocities)
  with velocityFrom_half [OF h] show ?thesis
    by (simp add: magnitude_def)
qed

text \<open>
  C6 fails on the code, at the same place. With these draws the velocity that start-up
  stores for the first particle has \<^verbatim>\<open>NaN\<close> components; its length is \<^verbatim>\<open>NaN\<close>,
  which is not between two and seven.
\<close>

theorem zero_direction_velocity_magnitude:
  "randomOk halfDraws \<and>
   magnitude (explosionVelocities halfStart ! 0) = NaN \<and>
   \<not> distanceBetween 2 7 (explosionVelocities halfStart ! 0)"
proof -
  have h: "halfDraws 3 = 1 / 2" "halfDraws 4 = 1 / 2" "halfDraws 5 = 1 / 2"
    by (simp_all add: halfDraws_def)
  have "explosionVelocities halfStart ! 0 = velocityFrom halfDraws"
    by (simp add: halfStart_def init_velocities)
  then have "explosionVelocities halfStart ! 0 = Vec3 NaN NaN NaN"
    by (simp add: velocityFrom_half(3) [OF h])
  then show ?thesis
    by (simp add: magnitude_def distanceBetween_def randomOk_def halfDraws_def)
qed

end
